theory Spec2Isabelle
  imports Complex_Main "HOL-Library.Product_Lexorder"
begin

section \<open>Exceptions\<close>

text \<open>
  The Python exceptions that the vector store and the matcher can raise, as values.
  \<open>ValueError\<close> is what \<open>add_items\<close> raises for sequences of different length;
  \<open>AssertionError\<close> is what the flat index raises for a wrong vector dimension or a
  non-positive \<open>k\<close>; the remaining ones come from indexing, file access and
  deserialisation.
\<close>

datatype error =
    ValueError
  | AssertionError
  | IndexError
  | AttributeError
  | FileNotFoundError
  | UnpicklingError
  | RuntimeError

section \<open>The flat L2 index (faiss.IndexFlatL2)\<close>

text \<open>
  Embedding components are floating-point numbers in the program; they are idealised as
  real numbers here (no rounding, no NaN).

  Modelled from the spec: the flat index is the external vector-search library, which is
  not part of the repository's sources. The spec describes it as an exact brute-force
  index: it keeps the embeddings in insertion order, the position of a vector being its
  handle; \<open>add\<close> requires every embedding to have exactly \<open>D\<close> components; \<open>search\<close>
  computes the squared Euclidean distance between the query and every stored embedding
  and returns the \<open>k\<close> entries with smallest distance, ascending, ties broken by the
  lower handle, and rejects \<open>k \<le> 0\<close> before any computation.
\<close>

record IndexFlatL2 =
  d :: nat
  xb :: "real list list"

definition ntotal :: "IndexFlatL2 \<Rightarrow> nat" where
  "ntotal ix = length (xb ix)"

definition IndexFlatL2_init :: "nat \<Rightarrow> IndexFlatL2" where
  "IndexFlatL2_init dimension = \<lparr>d = dimension, xb = []\<rparr>"

text \<open>
  Modelled from the spec: \<open>index.add(x)\<close> appends the rows of \<open>x\<close> in order when every row
  has \<open>d\<close> components, and fails without storing anything otherwise.
\<close>

definition index_add :: "IndexFlatL2 \<Rightarrow> real list list \<Rightarrow> error + IndexFlatL2" where
  "index_add ix x =
     (if list_all (\<lambda>row. length row = d ix) x
      then Inr (ix\<lparr>xb := xb ix @ x\<rparr>)
      else Inl AssertionError)"

text \<open>Squared Euclidean distance of two vectors, component by component.\<close>

definition l2sqr :: "real list \<Rightarrow> real list \<Rightarrow> real" where
  "l2sqr x y = sum_list (map (\<lambda>(a, b). (a - b)\<^sup>2) (zip x y))"

text \<open>
  Modelled from the spec: all handles of the index, ordered by ascending distance to the
  query, the lower handle first among equal distances.
\<close>

definition knn_order :: "real list list \<Rightarrow> real list \<Rightarrow> nat list" where
  "knn_order vecs q = sort_key (\<lambda>h. (l2sqr q (vecs ! h), h)) [0..<length vecs]"

text \<open>
  The value the library leaves in the distance slot of a missing result. The wrapper
  never reads it, because it reads a distance only for a handle other than \<open>-1\<close>.
\<close>

definition FLT_MAX :: real where
  "FLT_MAX = 340282346638528859811704183484516925440"

text \<open>
  Modelled from the spec: one row of a search result, the \<open>k\<close> nearest handles with their
  distances; when fewer than \<open>k\<close> vectors are stored the row is filled up with handle
  \<open>-1\<close>.
\<close>

definition search_row :: "IndexFlatL2 \<Rightarrow> nat \<Rightarrow> real list \<Rightarrow> real list \<times> int list" where
  "search_row ix k q =
     (let hs = take k (knn_order (xb ix) q);
          pad = k - length hs
      in (map (\<lambda>h. l2sqr q (xb ix ! h)) hs @ replicate pad FLT_MAX,
          map int hs @ replicate pad (- 1)))"

text \<open>
  A numpy array as the search code sees it: one-dimensional (a single vector) or
  two-dimensional (a list of rows).
\<close>

datatype ndarray = Arr1 "real list" | Arr2 "real list list"

text \<open>
  Modelled from the spec: \<open>index.search(x, k)\<close> on a two-dimensional query array returns
  the pair \<open>(distances, indices)\<close>, one row per query row. A one-dimensional array has no
  \<open>(n, d)\<close> shape to unpack; a row of the wrong dimension and a non-positive \<open>k\<close> are
  rejected before anything is computed.
\<close>

definition index_search ::
  "IndexFlatL2 \<Rightarrow> ndarray \<Rightarrow> int \<Rightarrow> error + (real list list \<times> int list list)" where
  "index_search ix x k =
     (case x of
        Arr1 v \<Rightarrow> Inl ValueError
      | Arr2 rows \<Rightarrow>
          if \<not> list_all (\<lambda>row. length row = d ix) rows then Inl AssertionError
          else if k \<le> 0 then Inl AssertionError
          else Inr (map (\<lambda>q. fst (search_row ix (nat k) q)) rows,
                    map (\<lambda>q. snd (search_row ix (nat k) q)) rows))"

section \<open>VectorStore (rag/vector\_store.py)\<close>

record 'm VectorStore =
  dimension :: nat
  index :: IndexFlatL2
  metadata :: "'m list"

definition VectorStore_init :: "nat \<Rightarrow> 'm VectorStore" where
  "VectorStore_init dimension' =
     \<lparr>dimension = dimension', index = IndexFlatL2_init dimension', metadata = []\<rparr>"

text \<open>
  \<open>add_items\<close> mutates the store; the model returns the outcome together with the store
  as it is when the method returns or raises.
\<close>

definition add_items ::
  "'m VectorStore \<Rightarrow> real list list \<Rightarrow> 'm list \<Rightarrow> (error + unit) \<times> 'm VectorStore" where
  "add_items self embeddings metadata_list =
     (if length embeddings \<noteq> length metadata_list then (Inl ValueError, self)
      else case index_add (index self) embeddings of
             Inl e \<Rightarrow> (Inl e, self)
           | Inr ix \<Rightarrow> (Inr (), self\<lparr>index := ix, metadata := metadata self @ metadata_list\<rparr>))"

text \<open>
  Python subscripting \<open>xs[i]\<close>: a negative index counts from the end, anything outside
  \<open>-len(xs) \<le> i < len(xs)\<close> raises \<open>IndexError\<close> (the value \<open>None\<close> here).
\<close>

definition getitem :: "'a list \<Rightarrow> int \<Rightarrow> 'a option" where
  "getitem xs i =
     (if 0 \<le> i \<and> i < int (length xs) then Some (xs ! nat i)
      else if - int (length xs) \<le> i \<and> i < 0 then Some (xs ! nat (int (length xs) + i))
      else None)"

text \<open>
  The loop of \<open>search\<close> over \<open>enumerate(indices[0])\<close>, with the result list built so
  far as accumulator.
\<close>

fun search_loop ::
  "'m list \<Rightarrow> real list list \<Rightarrow> (nat \<times> int) list \<Rightarrow> ('m \<times> real) list \<Rightarrow> error + ('m \<times> real) list" where
  "search_loop md distances [] results = Inr results"
| "search_loop md distances ((i, idx) # rest) results =
     (if idx \<noteq> - 1 \<and> idx < int (length md) then
        (case getitem md idx of
           None \<Rightarrow> Inl IndexError
         | Some m \<Rightarrow>
             (case getitem distances 0 of
                None \<Rightarrow> Inl IndexError
              | Some row \<Rightarrow>
                  (case getitem row (int i) of
                     None \<Rightarrow> Inl IndexError
                   | Some distance \<Rightarrow> search_loop md distances rest (results @ [(m, distance)]))))
      else search_loop md distances rest results)"

definition search :: "'m VectorStore \<Rightarrow> ndarray \<Rightarrow> int \<Rightarrow> error + ('m \<times> real) list" where
  "search self query_embedding k =
     (let query_embedding = (case query_embedding of
                               Arr1 v \<Rightarrow> Arr2 [v]
                             | Arr2 rows \<Rightarrow> Arr2 rows)
      in case index_search (index self) query_embedding k of
           Inl e \<Rightarrow> Inl e
         | Inr (distances, indices) \<Rightarrow>
             (case getitem indices 0 of
                None \<Rightarrow> Inl IndexError
              | Some row \<Rightarrow> search_loop (metadata self) distances (enumerate 0 row) []))"

subsection \<open>Persistence\<close>

text \<open>
  A directory holds the three artifacts \<open>index.faiss\<close>, \<open>metadata.pkl\<close> and
  \<open>config.pkl\<close>. Each one is absent, present but not deserialisable, or present with the
  value that was written. Serialisation itself (pickle, the library's index writer) is
  taken to be lossless. The file system maps directory paths to directories.
\<close>

datatype 'a artifact = Missing | Unreadable | Stored 'a

record 'm directory =
  index_faiss :: "IndexFlatL2 artifact"
  metadata_pkl :: "'m list artifact"
  config_pkl :: "nat artifact"

type_synonym 'm filesystem = "string \<rightharpoonup> 'm directory"

definition save :: "'m VectorStore \<Rightarrow> string \<Rightarrow> 'm filesystem \<Rightarrow> 'm filesystem" where
  "save self directory fs =
     fs(directory \<mapsto>
        \<lparr>index_faiss = Stored (index self),
         metadata_pkl = Stored (metadata self),
         config_pkl = Stored (dimension self)\<rparr>)"

text \<open>Opening and unpickling a file, and reading an index file, as the loader does.\<close>

definition pickle_load :: "'a artifact \<Rightarrow> error + 'a" where
  "pickle_load f = (case f of Missing \<Rightarrow> Inl FileNotFoundError
                            | Unreadable \<Rightarrow> Inl UnpicklingError
                            | Stored v \<Rightarrow> Inr v)"

definition read_index :: "IndexFlatL2 artifact \<Rightarrow> error + IndexFlatL2" where
  "read_index f = (case f of Missing \<Rightarrow> Inl RuntimeError
                           | Unreadable \<Rightarrow> Inl RuntimeError
                           | Stored ix \<Rightarrow> Inr ix)"

definition load :: "string \<Rightarrow> 'm filesystem \<Rightarrow> error + 'm VectorStore" where
  "load directory fs =
     (case fs directory of
        None \<Rightarrow> Inl FileNotFoundError
      | Some dir \<Rightarrow>
          (case pickle_load (config_pkl dir) of
             Inl e \<Rightarrow> Inl e
           | Inr config \<Rightarrow>
               (let vector_store = VectorStore_init config in
                case read_index (index_faiss dir) of
                  Inl e \<Rightarrow> Inl e
                | Inr ix \<Rightarrow>
                    (case pickle_load (metadata_pkl dir) of
                       Inl e \<Rightarrow> Inl e
                     | Inr md \<Rightarrow> Inr (vector_store\<lparr>index := ix, metadata := md\<rparr>)))))"

section \<open>The matcher (rag/embeddings.py)\<close>

text \<open>
  A catalog entry (one dictionary of \<open>function_metadata\<close>); \<open>keyword_list\<close> is its
  \<open>"keywords"\<close> entry.
\<close>

record func =
  name :: string
  description :: string
  keyword_list :: "string list"
  category :: string

text \<open>Python's \<open>sep.join(xs)\<close>.\<close>

fun join :: "string \<Rightarrow> string list \<Rightarrow> string" where
  "join sep [] = []"
| "join sep [x] = x"
| "join sep (x # y # ys) = x @ sep @ join sep (y # ys)"

text \<open>
  The text that is embedded for a catalog entry:
  \<^verbatim>\<open>f"{func['name']}: {func['description']}. Keywords: {', '.join(func['keywords'])}"\<close>
\<close>

definition describe :: "func \<Rightarrow> string" where
  "describe func =
     name func @ '': '' @ description func @ ''. Keywords: '' @ join '', '' (keyword_list func)"

text \<open>
  The generator owns the sentence-embedding model and, once initialised, the vector
  store. The model is external; it is the function from a text to its embedding.
\<close>

record EmbeddingGenerator =
  model_name :: string
  model :: "string \<Rightarrow> real list"
  vector_store :: "func VectorStore option"

definition EmbeddingGenerator_init :: "string \<Rightarrow> (string \<Rightarrow> real list) \<Rightarrow> EmbeddingGenerator" where
  "EmbeddingGenerator_init model_name' model' =
     \<lparr>model_name = model_name', model = model', vector_store = None\<rparr>"

text \<open>\<open>encode\<close> of a list of texts gives one row per text; of a single text, a vector.\<close>

definition encode_list :: "EmbeddingGenerator \<Rightarrow> string list \<Rightarrow> real list list" where
  "encode_list self texts = map (model self) texts"

definition encode_str :: "EmbeddingGenerator \<Rightarrow> string \<Rightarrow> ndarray" where
  "encode_str self text = Arr1 (model self text)"

text \<open>
  \<open>embeddings.shape[1]\<close>: the number of columns. The encoding of no texts at all has no
  second axis.
\<close>

definition shape1 :: "real list list \<Rightarrow> error + nat" where
  "shape1 embeddings = (case embeddings of [] \<Rightarrow> Inl IndexError | row # _ \<Rightarrow> Inr (length row))"

text \<open>
  \<open>os.path.exists(save_dir) and os.path.isfile(os.path.join(save_dir, "index.faiss"))\<close>
\<close>

definition index_file_exists :: "string \<Rightarrow> 'm filesystem \<Rightarrow> bool" where
  "index_file_exists save_dir fs =
     (case fs save_dir of None \<Rightarrow> False | Some dir \<Rightarrow> index_faiss dir \<noteq> Missing)"

text \<open>
  The state that the matcher's methods read and write: the generator object and the
  file system. The catalog \<open>function_metadata\<close> is a fixed list, passed as a parameter.
\<close>

type_synonym world = "EmbeddingGenerator \<times> func filesystem"

definition initialize_vector_store ::
  "func list \<Rightarrow> string \<Rightarrow> world \<Rightarrow> (error + func VectorStore) \<times> world" where
  "initialize_vector_store function_metadata save_dir w =
     (case w of (self, fs) \<Rightarrow>
        if index_file_exists save_dir fs then
          (case load save_dir fs of
             Inl e \<Rightarrow> (Inl e, (self, fs))
           | Inr vs \<Rightarrow> (Inr vs, (self\<lparr>vector_store := Some vs\<rparr>, fs)))
        else
          (let texts = map describe function_metadata;
               embeddings = encode_list self texts
           in case shape1 embeddings of
                Inl e \<Rightarrow> (Inl e, (self, fs))
              | Inr columns \<Rightarrow>
                  (case add_items (VectorStore_init columns) embeddings function_metadata of
                     (Inl e, vs) \<Rightarrow> (Inl e, (self\<lparr>vector_store := Some vs\<rparr>, fs))
                   | (Inr u, vs) \<Rightarrow>
                       (Inr vs, (self\<lparr>vector_store := Some vs\<rparr>, save vs save_dir fs)))))"

definition find_matching_function ::
  "func list \<Rightarrow> world \<Rightarrow> string \<Rightarrow> int \<Rightarrow> (error + func list) \<times> world" where
  "find_matching_function function_metadata w query k =
     (case (if vector_store (fst w) = None
            then (case initialize_vector_store function_metadata ''vector_db'' w of
                    (Inl e, w') \<Rightarrow> (Some e, w')
                  | (Inr vs, w') \<Rightarrow> (None, w'))
            else (None, w)) of
        (Some e, w') \<Rightarrow> (Inl e, w')
      | (None, (self, fs)) \<Rightarrow>
          (let query_embedding = encode_str self query in
           case vector_store self of
             None \<Rightarrow> (Inl AttributeError, (self, fs))
           | Some vs \<Rightarrow>
               (case search vs query_embedding k of
                  Inl e \<Rightarrow> (Inl e, (self, fs))
                | Inr matches \<Rightarrow> (Inr (map fst matches), (self, fs)))))"

section \<open>Specification predicates and example data\<close>

text \<open>
  The invariant of the data model: as many stored vectors as metadata entries.
\<close>

definition consistent :: "'m VectorStore \<Rightarrow> bool" where
  "consistent self \<longleftrightarrow> ntotal (index self) = length (metadata self)"

text \<open>
  The stores that can be built through the interface: a fresh store, extended by any
  number of successful \<open>add_items\<close> calls.
\<close>

inductive populated :: "'m VectorStore \<Rightarrow> bool" where
  fresh: "populated (VectorStore_init n)"
| added: "populated self \<Longrightarrow> add_items self embeddings metadata_list = (Inr (), self') \<Longrightarrow>
          populated self'"

text \<open>A store of four two-dimensional vectors; handles 2 and 3 are equally far from the origin.\<close>

definition example_store :: "string VectorStore" where
  "example_store =
     \<lparr>dimension = 2,
      index = \<lparr>d = 2, xb = [[0, 0], [3, 4], [1, 0], [0, 1]]\<rparr>,
      metadata = [''a'', ''b'', ''c'', ''e'']\<rparr>"

text \<open>A store with two vectors and two metadata entries.\<close>

definition two_entry_store :: "string VectorStore" where
  "two_entry_store =
     \<lparr>dimension = 2, index = \<lparr>d = 2, xb = [[3, 4], [1, 0]]\<rparr>, metadata = [''a'', ''b'']\<rparr>"

text \<open>
  A store whose index holds more vectors than there are metadata entries, and whose
  \<open>dimension\<close> field differs from the dimension of its index.
\<close>

definition inconsistent_store :: "string VectorStore" where
  "inconsistent_store =
     \<lparr>dimension = 3,
      index = \<lparr>d = 2, xb = [[0, 0], [3, 4], [1, 0], [0, 1]]\<rparr>,
      metadata = [''a'', ''b'']\<rparr>"

text \<open>A file system without any directory.\<close>

definition no_files :: "'m filesystem" where
  "no_files = Map.empty"

text \<open>A file system whose directory \<open>vector_db\<close> holds the artifacts of that store.\<close>

definition inconsistent_fs :: "string filesystem" where
  "inconsistent_fs =
     [''vector_db'' \<mapsto>
        \<lparr>index_faiss = Stored \<lparr>d = 2, xb = [[0, 0], [3, 4], [1, 0], [0, 1]]\<rparr>,
         metadata_pkl = Stored [''a'', ''b''],
         config_pkl = Stored 3\<rparr>]"

text \<open>A file system in which \<open>config.pkl\<close> of \<open>vector_db\<close> is missing.\<close>

definition incomplete_fs :: "string filesystem" where
  "incomplete_fs =
     [''vector_db'' \<mapsto>
        \<lparr>index_faiss = Stored \<lparr>d = 2, xb = []\<rparr>,
         metadata_pkl = Stored [],
         config_pkl = Missing\<rparr>]"

text \<open>A two-entry catalog, a toy embedding model, and a generator that uses it.\<close>

definition example_catalog :: "func list" where
  "example_catalog =
     [\<lparr>name = ''open_calculator'', description = ''Opens the system calculator application'',
       keyword_list = [''calculator'', ''calc'', ''math''], category = ''application_control''\<rparr>,
      \<lparr>name = ''get_cpu_usage'', description = ''Returns current CPU usage percentage'',
       keyword_list = [''cpu'', ''usage'', ''load''], category = ''system_monitoring''\<rparr>]"

definition example_model :: "string \<Rightarrow> real list" where
  "example_model text = [real (length text), 1]"

definition example_generator :: EmbeddingGenerator where
  "example_generator = EmbeddingGenerator_init ''all-MiniLM-L6-v2'' example_model"

text \<open>
  A store persisted by an earlier run, holding one entry that is not in the catalog, and
  a file system with that store in \<open>vector_db\<close>.
\<close>

definition stale_store :: "func VectorStore" where
  "stale_store =
     \<lparr>dimension = 2,
      index = \<lparr>d = 2, xb = [[7, 1]]\<rparr>,
      metadata = [\<lparr>name = ''removed'', description = ''No longer in the catalog'',
                   keyword_list = [], category = ''none''\<rparr>]\<rparr>"

definition stale_fs :: "func filesystem" where
  "stale_fs = save stale_store ''vector_db'' no_files"

section \<open>Auxiliary facts\<close>

subsection \<open>The result loop\<close>

lemma getitem_nat: "h < length xs \<Longrightarrow> getitem xs (int h) = Some (xs ! h)"
  by (simp add: getitem_def)

lemma getitem_0_Cons: "getitem (x # xs) 0 = Some x"
  by (simp add: getitem_def)

lemma search_loop_padding:
  "search_loop md distances (enumerate n (replicate p (- 1))) results = Inr results"
  by (induction p arbitrary: n) simp_all

lemma search_loop_handles:
  "search_loop md ((pre @ map f hs @ padding) # others)
     (enumerate (length pre) (map int hs @ replicate p (- 1))) results =
   Inr (results @ map (\<lambda>h. (md ! h, f h)) (filter (\<lambda>h. h < length md) hs))"
proof (induction hs arbitrary: pre results)
  case Nil
  show ?case by (simp add: search_loop_padding)
next
  case (Cons h hs)
  have row: "getitem (pre @ map f (h # hs) @ padding) (int (length pre)) = Some (f h)"
    by (simp add: getitem_def nth_append)
  have step: "search_loop md (((pre @ [f h]) @ map f hs @ padding) # others)
     (enumerate (length (pre @ [f h])) (map int hs @ replicate p (- 1))) acc =
   Inr (acc @ map (\<lambda>h. (md ! h, f h)) (filter (\<lambda>h. h < length md) hs))" for acc
    by (rule Cons.IH)
  show ?case
  proof (cases "h < length md")
    case True
    then show ?thesis
      using step [of "results @ [(md ! h, f h)]"] row
      by (simp add: getitem_nat getitem_0_Cons)
  next
    case False
    then show ?thesis
      using step [of results] by simp
  qed
qed

lemma search_row_handles:
  "search_loop md (fst (search_row ix k q) # others) (enumerate 0 (snd (search_row ix k q))) [] =
   Inr (map (\<lambda>h. (md ! h, l2sqr q (xb ix ! h)))
          (filter (\<lambda>h. h < length md) (take k (knn_order (xb ix) q))))"
  using search_loop_handles [of md "[]" "\<lambda>h. l2sqr q (xb ix ! h)"
      "take k (knn_order (xb ix) q)" _ others _ "[]"]
  by (simp add: search_row_def Let_def)

lemma search_Arr2:
  assumes "list_all (\<lambda>row. length row = d (index self)) (q # rest)" and "0 < k"
  shows "search self (Arr2 (q # rest)) k =
    Inr (map (\<lambda>h. (metadata self ! h, l2sqr q (xb (index self) ! h)))
          (filter (\<lambda>h. h < length (metadata self))
             (take (nat k) (knn_order (xb (index self)) q))))"
  using assms by (simp add: search_def index_search_def getitem_0_Cons search_row_handles)

lemma search_Arr1:
  assumes "length q = d (index self)" and "0 < k"
  shows "search self (Arr1 q) k =
    Inr (map (\<lambda>h. (metadata self ! h, l2sqr q (xb (index self) ! h)))
          (filter (\<lambda>h. h < length (metadata self))
             (take (nat k) (knn_order (xb (index self)) q))))"
  using assms by (simp add: search_def index_search_def getitem_0_Cons search_row_handles)

subsection \<open>The order of the handles\<close>

lemma knn_order_set: "set (knn_order vecs q) = {0..<length vecs}"
  by (simp add: knn_order_def)

lemma knn_order_distinct: "distinct (knn_order vecs q)"
  by (simp add: knn_order_def)

lemma knn_order_length: "length (knn_order vecs q) = length vecs"
  by (simp add: knn_order_def)

lemma knn_order_sorted:
  "sorted (map (\<lambda>h. (l2sqr q (vecs ! h), h)) (knn_order vecs q))"
  by (simp add: knn_order_def)

lemma sorted_pairs_fst: "sorted (map (\<lambda>h. (f h, g h)) hs) \<Longrightarrow> sorted (map f hs)"
  for f :: "'a \<Rightarrow> 'b::linorder" and g :: "'a \<Rightarrow> 'c::linorder"
  by (induction hs) (auto simp: less_eq_prod_def)

lemma knn_order_ascending: "sorted (map (\<lambda>h. l2sqr q (vecs ! h)) (knn_order vecs q))"
  using knn_order_sorted by (rule sorted_pairs_fst)

lemma knn_order_ties:
  assumes "i < j" and "j < length (knn_order vecs q)"
    and "l2sqr q (vecs ! (knn_order vecs q ! i)) = l2sqr q (vecs ! (knn_order vecs q ! j))"
  shows "knn_order vecs q ! i < knn_order vecs q ! j"
proof -
  let ?hs = "knn_order vecs q"
  let ?key = "\<lambda>h. (l2sqr q (vecs ! h), h)"
  have "map ?key ?hs ! i \<le> map ?key ?hs ! j"
    using knn_order_sorted [of q vecs] assms(1,2)
    by (intro sorted_nth_mono) simp_all
  then have "?hs ! i \<le> ?hs ! j"
    using assms by (simp add: less_eq_prod_def)
  moreover have "?hs ! i \<noteq> ?hs ! j"
    using knn_order_distinct [of vecs q] assms(1,2) by (simp add: nth_eq_iff_index_eq)
  ultimately show ?thesis by simp
qed

lemma filter_handles_all:
  assumes "length vecs \<le> n"
  shows "filter (\<lambda>h. h < n) (take k (knn_order vecs q)) = take k (knn_order vecs q)"
proof -
  have "\<forall>h \<in> set (take k (knn_order vecs q)). h < n"
    using assms set_take_subset [of k "knn_order vecs q"] knn_order_set [of vecs q] by fastforce
  then show ?thesis by simp
qed

lemma search_length_bound:
  "length (filter (\<lambda>h. h < n) (take k (knn_order vecs q))) \<le> min k (min (length vecs) n)"
proof -
  let ?hs = "filter (\<lambda>h. h < n) (take k (knn_order vecs q))"
  have "length ?hs \<le> length (take k (knn_order vecs q))" by (rule length_filter_le)
  then have a: "length ?hs \<le> min k (length vecs)" by (simp add: knn_order_length)
  have "distinct ?hs" using knn_order_distinct [of vecs q] by simp
  then have "card (set ?hs) = length ?hs" by (rule distinct_card)
  moreover have "card (set ?hs) \<le> card {0..<n}" by (rule card_mono) auto
  ultimately have "length ?hs \<le> n" by simp
  with a show ?thesis by simp
qed

subsection \<open>Stores built through the interface\<close>

lemma add_items_consistent:
  assumes "consistent self"
  shows "consistent (snd (add_items self embeddings metadata_list))"
  using assms
  by (auto simp: add_items_def index_add_def consistent_def ntotal_def split: if_splits)

lemma add_items_appends:
  "\<exists>es ms. length es = length ms \<and>
     xb (index (snd (add_items self embeddings metadata_list))) = xb (index self) @ es \<and>
     metadata (snd (add_items self embeddings metadata_list)) = metadata self @ ms"
proof (cases "fst (add_items self embeddings metadata_list)")
  case (Inl e)
  then have "snd (add_items self embeddings metadata_list) = self"
    by (auto simp: add_items_def index_add_def split: if_splits)
  then show ?thesis by simp
next
  case (Inr u)
  then have "length embeddings = length metadata_list \<and>
      xb (index (snd (add_items self embeddings metadata_list))) = xb (index self) @ embeddings \<and>
      metadata (snd (add_items self embeddings metadata_list)) = metadata self @ metadata_list"
    by (auto simp: add_items_def index_add_def split: if_splits)
  then show ?thesis by blast
qed

lemma populated_invariant:
  "populated self \<Longrightarrow> consistent self \<and> d (index self) = dimension self"
proof (induction rule: populated.induct)
  case (fresh n)
  show ?case
    by (simp add: consistent_def ntotal_def VectorStore_init_def IndexFlatL2_init_def)
next
  case (added self embeddings metadata_list self')
  then show ?case
    by (auto simp: add_items_def index_add_def consistent_def ntotal_def split: if_splits)
qed

lemma example_store_populated: "populated example_store"
proof -
  have "add_items (VectorStore_init 2) [[0, 0], [3, 4], [1, 0], [0, 1]] [''a'', ''b'', ''c'', ''e'']
        = (Inr (), example_store)"
    by (simp add: add_items_def index_add_def VectorStore_init_def IndexFlatL2_init_def
        example_store_def)
  then show ?thesis
    using populated.fresh by (rule populated.added [rotated])
qed

text \<open>
  The example store searched from the origin: handles 2 and 3 are both at distance 1 and
  come out in insertion order.
\<close>

lemma example_store_search:
  "search example_store (Arr1 [0, 0]) 5 = Inr [(''a'', 0), (''c'', 1), (''e'', 1), (''b'', 25)]"
  by code_simp

subsection \<open>Persistence\<close>

lemma load_save: "load directory (save self directory fs) = Inr self"
  by (simp add: load_def save_def pickle_load_def read_index_def VectorStore_init_def)

lemma load_outcome:
  "load directory fs =
     (case fs directory of
        None \<Rightarrow> Inl FileNotFoundError
      | Some dir \<Rightarrow>
          (case config_pkl dir of
             Missing \<Rightarrow> Inl FileNotFoundError
           | Unreadable \<Rightarrow> Inl UnpicklingError
           | Stored c \<Rightarrow>
               (case index_faiss dir of
                  Missing \<Rightarrow> Inl RuntimeError
                | Unreadable \<Rightarrow> Inl RuntimeError
                | Stored ix \<Rightarrow>
                    (case metadata_pkl dir of
                       Missing \<Rightarrow> Inl FileNotFoundError
                     | Unreadable \<Rightarrow> Inl UnpicklingError
                     | Stored md \<Rightarrow> Inr \<lparr>dimension = c, index = ix, metadata = md\<rparr>))))"
  by (simp add: load_def pickle_load_def read_index_def VectorStore_init_def
      split: option.split artifact.split)

subsection \<open>The matcher\<close>

lemma describe_example:
  "map describe example_catalog =
     [''open_calculator: Opens the system calculator application. Keywords: calculator, calc, math'',
      ''get_cpu_usage: Returns current CPU usage percentage. Keywords: cpu, usage, load'']"
  by (simp add: example_catalog_def describe_def)

lemma initialize_fresh:
  assumes "\<not> index_file_exists save_dir fs" and "function_metadata \<noteq> []"
    and "\<forall>f \<in> set function_metadata. length (model self (describe f)) = n"
  shows "initialize_vector_store function_metadata save_dir (self, fs) =
     (let vs = \<lparr>dimension = n,
                index = \<lparr>d = n, xb = map (\<lambda>f. model self (describe f)) function_metadata\<rparr>,
                metadata = function_metadata\<rparr>
      in (Inr vs, (self\<lparr>vector_store := Some vs\<rparr>, save vs save_dir fs)))"
proof -
  obtain f rest where cat: "function_metadata = f # rest"
    using assms(2) by (cases function_metadata) auto
  have rows: "list_all (\<lambda>row. length row = n) (map (\<lambda>f. model self (describe f)) function_metadata)"
    using assms(3) by (simp add: list_all_iff)
  have shape: "shape1 (encode_list self (map describe function_metadata)) = Inr n"
    using assms(3) cat by (simp add: shape1_def encode_list_def)
  have add: "add_items (VectorStore_init n) (encode_list self (map describe function_metadata))
      function_metadata =
     (Inr (), \<lparr>dimension = n,
               index = \<lparr>d = n, xb = map (\<lambda>f. model self (describe f)) function_metadata\<rparr>,
               metadata = function_metadata\<rparr>)"
    using rows
    by (simp add: add_items_def index_add_def encode_list_def VectorStore_init_def
        IndexFlatL2_init_def comp_def)
  show ?thesis
    using assms(1) by (simp add: initialize_vector_store_def shape add Let_def)
qed

lemma initialize_load:
  assumes "index_file_exists save_dir fs"
  shows "initialize_vector_store function_metadata save_dir (self, fs) =
     (case load save_dir fs of
        Inl e \<Rightarrow> (Inl e, (self, fs))
      | Inr vs \<Rightarrow> (Inr vs, (self\<lparr>vector_store := Some vs\<rparr>, fs)))"
  using assms by (simp add: initialize_vector_store_def)

lemma initialize_result:
  "initialize_vector_store function_metadata save_dir w = (Inr vs, w') \<Longrightarrow>
   vector_store (fst w') = Some vs"
  by (auto simp: initialize_vector_store_def Let_def
      split: prod.splits if_splits sum.splits)

lemma initialize_unpopulated:
  "vector_store (fst w) = None \<Longrightarrow>
   vector_store (fst (snd (initialize_vector_store function_metadata save_dir w))) = None \<Longrightarrow>
   snd (initialize_vector_store function_metadata save_dir w) = w"
  by (auto simp: initialize_vector_store_def Let_def
      split: prod.splits if_splits sum.splits)

lemma find_matching_function_world:
  "snd (find_matching_function function_metadata w query k) =
     (if vector_store (fst w) = None
      then snd (initialize_vector_store function_metadata ''vector_db'' w)
      else w)"
proof (cases "vector_store (fst w) = None")
  case True
  obtain r w' where init: "initialize_vector_store function_metadata ''vector_db'' w = (r, w')"
    by (cases "initialize_vector_store function_metadata ''vector_db'' w")
  show ?thesis
  proof (cases r)
    case (Inl e)
    then show ?thesis using True init by (simp add: find_matching_function_def)
  next
    case (Inr vs)
    with init have "vector_store (fst w') = Some vs" by (simp add: initialize_result)
    then show ?thesis
      using True init Inr
      by (cases w') (simp add: find_matching_function_def Let_def split: sum.splits)
  qed
next
  case False
  then show ?thesis
    by (cases w) (auto simp: find_matching_function_def Let_def split: sum.splits option.splits)
qed

lemma find_matching_function_twice:
  "snd (find_matching_function function_metadata
          (snd (find_matching_function function_metadata w query k)) query' k') =
   snd (find_matching_function function_metadata w query k)"
proof (cases "vector_store (fst w) = None")
  case True
  let ?w1 = "snd (initialize_vector_store function_metadata ''vector_db'' w)"
  have first: "snd (find_matching_function function_metadata w query k) = ?w1"
    using True by (simp add: find_matching_function_world)
  show ?thesis
  proof (cases "vector_store (fst ?w1) = None")
    case None: True
    then have "?w1 = w" using True by (simp add: initialize_unpopulated)
    then show ?thesis using first True by (simp add: find_matching_function_world)
  next
    case False
    have "snd (find_matching_function function_metadata ?w1 query' k') = ?w1"
      by (subst find_matching_function_world) (simp only: False if_False)
    then show ?thesis by (simp only: first)
  qed
next
  case False
  have same: "snd (find_matching_function function_metadata w q' k'') = w" for q' k''
    by (subst find_matching_function_world) (simp only: False if_False)
  show ?thesis by (simp only: same)
qed

section \<open>Properties of the vector store\<close>


text \<open>
  C2. Saving a store to a directory and loading it from there gives a store with the
  same dimension, the same metadata sequence in the same order and the same vectors,
  and \<open>search\<close> on it returns the same outcome as on the original for every query and
  every \<open>k\<close> (the same descriptors in the same order with the same distances).
\<close>

theorem save_load_round_trip:
  "\<exists>loaded. load directory (save self directory fs) = Inr loaded \<and>
     dimension loaded = dimension self \<and>
     metadata loaded = metadata self \<and>
     xb (index loaded) = xb (index self) \<and>
     (\<forall>q k. search loaded q k = search self q k)"
  by (simp add: load_save)

text \<open>
  C4. \<open>add_items\<close> with sequences of different lengths fails with the length error
  (\<open>ValueError\<close>, the spec's ShapeMismatch) and leaves the store unchanged. With equal
  lengths and embeddings of the index's dimension, the vectors and the metadata are both
  appended, in order. With equal lengths and an embedding of another dimension, the call
  fails with the dimension error and again nothing is changed.
\<close>

theorem add_items_all_or_nothing:
  "(length embeddings \<noteq> length metadata_list \<longrightarrow>
      add_items self embeddings metadata_list = (Inl ValueError, self)) \<and>
   (length embeddings = length metadata_list \<and>
    list_all (\<lambda>e. length e = d (index self)) embeddings \<longrightarrow>
      add_items self embeddings metadata_list =
        (Inr (), self\<lparr>index := (index self)\<lparr>xb := xb (index self) @ embeddings\<rparr>,
                       metadata := metadata self @ metadata_list\<rparr>)) \<and>
   (length embeddings = length metadata_list \<and>
    \<not> list_all (\<lambda>e. length e = d (index self)) embeddings \<longrightarrow>
      add_items self embeddings metadata_list = (Inl AssertionError, self))"
  by (simp add: add_items_def index_add_def)

theorem add_items_all_or_nothing_witness:
  "length [[5, 5 :: real]] \<noteq> length [''x'', ''y''] \<and>
   add_items two_entry_store [[5, 5]] [''x'', ''y''] = (Inl ValueError, two_entry_store) \<and>
   length [[5, 5 :: real], [6, 6]] = length [''x'', ''y''] \<and>
   list_all (\<lambda>e. length e = d (index two_entry_store)) [[5, 5], [6, 6]] \<and>
   add_items two_entry_store [[5, 5], [6, 6]] [''x'', ''y''] =
     (Inr (), \<lparr>dimension = 2, index = \<lparr>d = 2, xb = [[3, 4], [1, 0], [5, 5], [6, 6]]\<rparr>,
               metadata = [''a'', ''b'', ''x'', ''y'']\<rparr>) \<and>
   \<not> list_all (\<lambda>e. length e = d (index two_entry_store)) [[5, 5], [6]] \<and>
   add_items two_entry_store [[5, 5], [6]] [''x'', ''y''] = (Inl AssertionError, two_entry_store)"
  using add_items_all_or_nothing [of "[[5, 5]]" "[''x'', ''y'']" two_entry_store]
    add_items_all_or_nothing [of "[[5, 5], [6, 6]]" "[''x'', ''y'']" two_entry_store]
    add_items_all_or_nothing [of "[[5, 5], [6]]" "[''x'', ''y'']" two_entry_store]
  by (simp add: two_entry_store_def)

text \<open>
  C5. For every store, empty or populated, every query and every \<open>k \<le> 0\<close>, \<open>search\<close>
  fails with the argument error of the index (\<open>AssertionError\<close>, the spec's
  InvalidArgument). The outcome depends neither on the stored vectors nor on the query:
  the request is rejected before any distance is computed.
\<close>

theorem search_rejects_nonpositive_k:
  "k \<le> 0 \<Longrightarrow> search self q k = Inl AssertionError"
  by (cases q) (simp_all add: search_def index_search_def)

theorem search_rejects_nonpositive_k_witness:
  "(0::int) \<le> 0 \<and> search example_store (Arr1 [0, 0]) 0 = Inl AssertionError \<and>
   (- 3 :: int) \<le> 0 \<and>
   search (VectorStore_init 2 :: string VectorStore) (Arr1 [0, 0]) (- 3) = Inl AssertionError"
  using search_rejects_nonpositive_k [of 0 example_store "Arr1 [0, 0]"]
    search_rejects_nonpositive_k [of "- 3" "VectorStore_init 2 :: string VectorStore" "Arr1 [0, 0]"]
  by simp

text \<open>
  C1. For every store built by \<open>add_items\<close> calls on a fresh store, every query of the
  store's dimension and every positive \<open>k\<close> that is at least the number of stored
  entries, \<open>search\<close> returns the entries of a list of handles in which every handle of
  the store occurs exactly once, each with its own metadata and its squared Euclidean
  distance to the query, in order of non-decreasing distance, and among entries at the
  same distance the lower handle (the earlier insertion) first.
\<close>

theorem search_returns_every_entry_sorted:
  assumes "populated self" and "length q = dimension self"
    and "0 < k" and "int (length (metadata self)) \<le> k"
  shows "\<exists>hs. search self (Arr1 q) k =
            Inr (map (\<lambda>h. (metadata self ! h, l2sqr q (xb (index self) ! h))) hs) \<and>
          distinct hs \<and> set hs = {0..<length (metadata self)} \<and>
          sorted (map (\<lambda>h. l2sqr q (xb (index self) ! h)) hs) \<and>
          (\<forall>i j. i < j \<and> j < length hs \<and>
                 l2sqr q (xb (index self) ! (hs ! i)) = l2sqr q (xb (index self) ! (hs ! j))
                 \<longrightarrow> hs ! i < hs ! j)"
proof -
  let ?hs = "knn_order (xb (index self)) q"
  have inv: "length (xb (index self)) = length (metadata self)" "d (index self) = dimension self"
    using populated_invariant [OF assms(1)] by (simp_all add: consistent_def ntotal_def)
  have all: "take (nat k) ?hs = ?hs"
    using assms(4) inv(1) by (simp add: knn_order_length)
  have "search self (Arr1 q) k =
          Inr (map (\<lambda>h. (metadata self ! h, l2sqr q (xb (index self) ! h))) ?hs)"
    using search_Arr1 [of q self k] assms(2,3) inv
      filter_handles_all [of "xb (index self)" "length (metadata self)" "nat k" q]
    by (simp add: all)
  moreover have "distinct ?hs" by (rule knn_order_distinct)
  moreover have "set ?hs = {0..<length (metadata self)}"
    using inv(1) by (simp add: knn_order_set)
  moreover have "sorted (map (\<lambda>h. l2sqr q (xb (index self) ! h)) ?hs)"
    by (rule knn_order_ascending)
  moreover have "\<forall>i j. i < j \<and> j < length ?hs \<and>
      l2sqr q (xb (index self) ! (?hs ! i)) = l2sqr q (xb (index self) ! (?hs ! j))
      \<longrightarrow> ?hs ! i < ?hs ! j"
    using knn_order_ties by blast
  ultimately show ?thesis by blast
qed

theorem search_returns_every_entry_sorted_witness:
  "populated example_store \<and> length [0, 0 :: real] = dimension example_store \<and>
   (0::int) < 5 \<and> int (length (metadata example_store)) \<le> 5 \<and>
   (\<exists>hs. search example_store (Arr1 [0, 0]) 5 =
            Inr (map (\<lambda>h. (metadata example_store ! h,
                            l2sqr [0, 0] (xb (index example_store) ! h))) hs) \<and>
          distinct hs \<and> set hs = {0..<length (metadata example_store)} \<and>
          sorted (map (\<lambda>h. l2sqr [0, 0] (xb (index example_store) ! h)) hs) \<and>
          (\<forall>i j. i < j \<and> j < length hs \<and>
                 l2sqr [0, 0] (xb (index example_store) ! (hs ! i)) =
                 l2sqr [0, 0] (xb (index example_store) ! (hs ! j))
                 \<longrightarrow> hs ! i < hs ! j))"
proof -
  have h1: "populated example_store" by (rule example_store_populated)
  have h2: "length [0, 0 :: real] = dimension example_store" by (simp add: example_store_def)
  have h3: "(0::int) < 5" by simp
  have h4: "int (length (metadata example_store)) \<le> 5" by (simp add: example_store_def)
  show ?thesis
    using h1 h2 h3 h4 search_returns_every_entry_sorted [OF h1 h2 h3 h4] by blast
qed

text \<open>
  C6. For every store, every positive \<open>k\<close> and every query of the index's dimension,
  \<open>search\<close> returns a sequence, not an error, of length at most the minimum of \<open>k\<close>
  and the number of entries. On an empty index the sequence is empty. When the store has
  as many metadata entries as vectors the length is exactly that minimum, so \<open>k = 5\<close>
  against a two-entry store gives exactly two results.
\<close>

theorem search_length_at_most_min:
  assumes "0 < k" and "length q = d (index self)"
  shows "\<exists>rs. search self (Arr1 q) k = Inr rs \<and>
           length rs \<le> min (nat k) (min (ntotal (index self)) (length (metadata self))) \<and>
           (ntotal (index self) = 0 \<longrightarrow> rs = []) \<and>
           (consistent self \<longrightarrow> length rs = min (nat k) (ntotal (index self))) \<and>
           (consistent self \<and> ntotal (index self) = 2 \<and> k = 5 \<longrightarrow> length rs = 2)"
proof -
  let ?hs = "filter (\<lambda>h. h < length (metadata self)) (take (nat k) (knn_order (xb (index self)) q))"
  let ?rs = "map (\<lambda>h. (metadata self ! h, l2sqr q (xb (index self) ! h))) ?hs"
  have res: "search self (Arr1 q) k = Inr ?rs"
    using assms by (simp add: search_Arr1)
  have bound: "length ?rs \<le> min (nat k) (min (ntotal (index self)) (length (metadata self)))"
    using search_length_bound [of "length (metadata self)" "nat k" "xb (index self)" q]
    by (simp add: ntotal_def)
  have empty: "ntotal (index self) = 0 \<longrightarrow> ?rs = []"
    by (simp add: ntotal_def knn_order_def)
  have exact: "consistent self \<longrightarrow> length ?rs = min (nat k) (ntotal (index self))"
    using filter_handles_all [of "xb (index self)" "length (metadata self)" "nat k" q]
    by (auto simp: consistent_def ntotal_def knn_order_length)
  from exact have scenario:
    "consistent self \<and> ntotal (index self) = 2 \<and> k = 5 \<longrightarrow> length ?rs = 2"
    by auto
  show ?thesis
    by (rule exI [of _ ?rs]) (intro conjI res bound empty exact scenario)
qed

theorem search_length_at_most_min_witness:
  "(0::int) < 5 \<and> length [0, 0 :: real] = d (index two_entry_store) \<and>
   consistent two_entry_store \<and> ntotal (index two_entry_store) = 2 \<and>
   (\<exists>rs. search two_entry_store (Arr1 [0, 0]) 5 = Inr rs \<and> length rs = 2) \<and>
   ntotal (index (VectorStore_init 2 :: string VectorStore)) = 0 \<and>
   search (VectorStore_init 2 :: string VectorStore) (Arr1 [0, 0]) 5 = Inr []"
proof -
  have h1: "(0::int) < 5" by simp
  have h2: "length [0, 0 :: real] = d (index two_entry_store)" by (simp add: two_entry_store_def)
  have h3: "consistent two_entry_store" "ntotal (index two_entry_store) = 2"
    by (simp_all add: two_entry_store_def consistent_def ntotal_def)
  have h4: "length [0, 0 :: real] = d (index (VectorStore_init 2 :: string VectorStore))"
    "ntotal (index (VectorStore_init 2 :: string VectorStore)) = 0"
    by (simp_all add: VectorStore_init_def IndexFlatL2_init_def ntotal_def)
  show ?thesis
    using h1 h2 h3 h4(2) search_length_at_most_min [OF h1 h2]
      search_length_at_most_min [OF h1 h4(1)]
    by auto
qed

text \<open>
  C9. \<open>search\<close> never performs an out-of-bounds metadata lookup. For every store, also
  one whose index holds more vectors than there are metadata entries, no query with at
  least one row makes \<open>search\<close> fail with an index error; and for a positive \<open>k\<close> and a
  query of the index's dimension every result comes from a handle that is below the
  length of the metadata sequence, the handles at or above that length being dropped
  silently.
\<close>

theorem search_never_out_of_bounds:
  "(q \<noteq> Arr2 [] \<longrightarrow> search self q k \<noteq> Inl IndexError) \<and>
   (0 < k \<and> length v = d (index self) \<longrightarrow>
      (\<exists>hs. search self (Arr1 v) k =
               Inr (map (\<lambda>h. (metadata self ! h, l2sqr v (xb (index self) ! h))) hs) \<and>
             (\<forall>h \<in> set hs. h < length (metadata self)) \<and>
             hs = filter (\<lambda>h. h < length (metadata self))
                    (take (nat k) (knn_order (xb (index self)) v))))"
proof
  show "q \<noteq> Arr2 [] \<longrightarrow> search self q k \<noteq> Inl IndexError"
  proof
    assume nonempty: "q \<noteq> Arr2 []"
    show "search self q k \<noteq> Inl IndexError"
    proof (cases q)
      case (Arr1 v)
      show ?thesis
      proof (cases "length v = d (index self) \<and> 0 < k")
        case True
        then show ?thesis using Arr1 by (simp add: search_Arr1)
      next
        case False
        then show ?thesis using Arr1 by (auto simp: search_def index_search_def)
      qed
    next
      case (Arr2 rows)
      with nonempty obtain r rest where rows: "rows = r # rest" by (cases rows) auto
      show ?thesis
      proof (cases "list_all (\<lambda>row. length row = d (index self)) (r # rest) \<and> 0 < k")
        case True
        then show ?thesis using Arr2 rows by (simp add: search_Arr2)
      next
        case False
        then show ?thesis using Arr2 rows by (auto simp: search_def index_search_def)
      qed
    qed
  qed
next
  show "0 < k \<and> length v = d (index self) \<longrightarrow>
      (\<exists>hs. search self (Arr1 v) k =
               Inr (map (\<lambda>h. (metadata self ! h, l2sqr v (xb (index self) ! h))) hs) \<and>
             (\<forall>h \<in> set hs. h < length (metadata self)) \<and>
             hs = filter (\<lambda>h. h < length (metadata self))
                    (take (nat k) (knn_order (xb (index self)) v)))"
    by (simp add: search_Arr1)
qed

theorem search_never_out_of_bounds_witness:
  "Arr1 [0, 0] \<noteq> Arr2 [] \<and> search inconsistent_store (Arr1 [0, 0]) 3 \<noteq> Inl IndexError \<and>
   (0::int) < 3 \<and> length [0, 0 :: real] = d (index inconsistent_store) \<and>
   length (metadata inconsistent_store) < ntotal (index inconsistent_store) \<and>
   search inconsistent_store (Arr1 [0, 0]) 3 = Inr [(''a'', 0)]"
proof -
  have h: "(0::int) < 3 \<and> length [0, 0 :: real] = d (index inconsistent_store)"
    by (simp add: inconsistent_store_def)
  have hs: "filter (\<lambda>h. h < length (metadata inconsistent_store))
              (take (nat 3) (knn_order (xb (index inconsistent_store)) [0, 0])) = [0]"
    by code_simp
  have "\<exists>hs. search inconsistent_store (Arr1 [0, 0]) 3 =
            Inr (map (\<lambda>h. (metadata inconsistent_store ! h,
                            l2sqr [0, 0] (xb (index inconsistent_store) ! h))) hs) \<and>
          (\<forall>h \<in> set hs. h < length (metadata inconsistent_store)) \<and>
          hs = filter (\<lambda>h. h < length (metadata inconsistent_store))
                 (take (nat 3) (knn_order (xb (index inconsistent_store)) [0, 0]))"
    using search_never_out_of_bounds [of "Arr1 [0, 0]" inconsistent_store 3 "[0, 0]"] h
    by blast
  then have "search inconsistent_store (Arr1 [0, 0]) 3 =
      Inr (map (\<lambda>h. (metadata inconsistent_store ! h,
                      l2sqr [0, 0] (xb (index inconsistent_store) ! h))) [0])"
    unfolding hs by blast
  then have "search inconsistent_store (Arr1 [0, 0]) 3 = Inr [(''a'', 0)]"
    by (simp add: inconsistent_store_def l2sqr_def)
  moreover have "length (metadata inconsistent_store) < ntotal (index inconsistent_store)"
    by (simp add: inconsistent_store_def ntotal_def)
  ultimately show ?thesis using h by simp
qed

text \<open>
  C7, as the claim states it, does not hold for \<open>load\<close>: it checks nothing, so from a
  directory whose artifacts are readable but hold four vectors and two metadata entries
  it returns a store in which the number of vectors differs from the length of the
  metadata sequence.
\<close>

theorem load_inconsistent_state_counterexample:
  "load ''vector_db'' inconsistent_fs = Inr inconsistent_store \<and>
   \<not> consistent inconsistent_store"
  by (simp add: load_outcome inconsistent_fs_def inconsistent_store_def consistent_def ntotal_def)

text \<open>
  C7, amended. The constructor establishes the invariant that the number of stored
  vectors equals the length of the metadata sequence; \<open>add_items\<close> on a store that
  satisfies it leaves a store that satisfies it, whether the call succeeds or fails,
  and only appends to both sequences (nothing stored before is removed, moved or
  changed); \<open>search\<close> and \<open>save\<close> do not assign to the store at all (in the model they
  take it as a value and return no store). \<open>load\<close> does not check the invariant: the
  store it returns holds exactly the persisted index, metadata and dimension, so it
  satisfies the invariant exactly when the persisted metadata has as many entries as
  the persisted index has vectors, as it does when the directory was written by \<open>save\<close>
  from a store that satisfies the invariant.
\<close>

theorem operations_preserve_invariant_load_unchecked:
  assumes "consistent self"
  shows "consistent (VectorStore_init n :: 'm VectorStore) \<and>
         consistent (snd (add_items self embeddings metadata_list)) \<and>
         (\<exists>es ms. length es = length ms \<and>
            xb (index (snd (add_items self embeddings metadata_list))) = xb (index self) @ es \<and>
            metadata (snd (add_items self embeddings metadata_list)) = metadata self @ ms) \<and>
         (\<exists>loaded. load directory (save self directory fs) = Inr loaded \<and>
            consistent loaded \<and> xb (index loaded) = xb (index self) \<and>
            metadata loaded = metadata self) \<and>
         (load directory' fs' = Inr loaded' \<longrightarrow>
            (\<exists>dir. fs' directory' = Some dir \<and>
               index_faiss dir = Stored (index loaded') \<and>
               metadata_pkl dir = Stored (metadata loaded') \<and>
               config_pkl dir = Stored (dimension loaded'))) \<and>
         (fs' directory' =
            Some \<lparr>index_faiss = Stored ix, metadata_pkl = Stored md, config_pkl = Stored c\<rparr> \<longrightarrow>
            (\<exists>loaded. load directory' fs' = Inr loaded \<and> index loaded = ix \<and>
               metadata loaded = md \<and> (consistent loaded \<longleftrightarrow> ntotal ix = length md)))"
proof -
  have "consistent (VectorStore_init n :: 'm VectorStore)"
    by (simp add: consistent_def ntotal_def VectorStore_init_def IndexFlatL2_init_def)
  moreover have "consistent (snd (add_items self embeddings metadata_list))"
    using assms by (rule add_items_consistent)
  moreover have "\<exists>es ms. length es = length ms \<and>
            xb (index (snd (add_items self embeddings metadata_list))) = xb (index self) @ es \<and>
            metadata (snd (add_items self embeddings metadata_list)) = metadata self @ ms"
    by (rule add_items_appends)
  moreover have "\<exists>loaded. load directory (save self directory fs) = Inr loaded \<and>
            consistent loaded \<and> xb (index loaded) = xb (index self) \<and>
            metadata loaded = metadata self"
    using assms by (simp add: load_save)
  moreover have "load directory' fs' = Inr loaded' \<longrightarrow>
            (\<exists>dir. fs' directory' = Some dir \<and>
               index_faiss dir = Stored (index loaded') \<and>
               metadata_pkl dir = Stored (metadata loaded') \<and>
               config_pkl dir = Stored (dimension loaded'))"
    by (auto simp: load_outcome split: option.splits artifact.splits)
  moreover have "fs' directory' =
            Some \<lparr>index_faiss = Stored ix, metadata_pkl = Stored md, config_pkl = Stored c\<rparr> \<longrightarrow>
            (\<exists>loaded. load directory' fs' = Inr loaded \<and> index loaded = ix \<and>
               metadata loaded = md \<and> (consistent loaded \<longleftrightarrow> ntotal ix = length md))"
    by (simp add: load_outcome consistent_def)
  ultimately show ?thesis by blast
qed

theorem operations_preserve_invariant_load_unchecked_witness:
  "consistent two_entry_store \<and>
   consistent (VectorStore_init 2 :: string VectorStore) \<and>
   consistent (snd (add_items two_entry_store [[5, 5]] [''x''])) \<and>
   (\<exists>es ms. length es = length ms \<and>
      xb (index (snd (add_items two_entry_store [[5, 5]] [''x'']))) =
        xb (index two_entry_store) @ es \<and>
      metadata (snd (add_items two_entry_store [[5, 5]] [''x''])) =
        metadata two_entry_store @ ms) \<and>
   (\<exists>loaded. load ''vector_db'' (save two_entry_store ''vector_db'' no_files) = Inr loaded \<and>
      consistent loaded \<and> xb (index loaded) = xb (index two_entry_store) \<and>
      metadata loaded = metadata two_entry_store) \<and>
   load ''vector_db'' inconsistent_fs = Inr inconsistent_store \<and>
   (\<exists>dir. inconsistent_fs ''vector_db'' = Some dir \<and>
      index_faiss dir = Stored (index inconsistent_store) \<and>
      metadata_pkl dir = Stored (metadata inconsistent_store) \<and>
      config_pkl dir = Stored (dimension inconsistent_store)) \<and>
   inconsistent_fs ''vector_db'' =
     Some \<lparr>index_faiss = Stored \<lparr>d = 2, xb = [[0, 0], [3, 4], [1, 0], [0, 1]]\<rparr>,
           metadata_pkl = Stored [''a'', ''b''], config_pkl = Stored 3\<rparr> \<and>
   (\<exists>loaded. load ''vector_db'' inconsistent_fs = Inr loaded \<and>
      index loaded = \<lparr>d = 2, xb = [[0, 0], [3, 4], [1, 0], [0, 1]]\<rparr> \<and>
      metadata loaded = [''a'', ''b''] \<and>
      (consistent loaded \<longleftrightarrow>
         ntotal \<lparr>d = 2, xb = [[0, 0], [3, 4], [1, 0], [0, 1]]\<rparr> = length [''a'', ''b''])) \<and>
   ntotal \<lparr>d = 2, xb = [[0, 0], [3, 4], [1, 0], [0, 1]]\<rparr> \<noteq> length [''a'', ''b'']"
proof -
  have h: "consistent two_entry_store"
    by (simp add: two_entry_store_def consistent_def ntotal_def)
  have l: "load ''vector_db'' inconsistent_fs = Inr inconsistent_store"
    by (simp add: load_outcome inconsistent_fs_def inconsistent_store_def)
  have f: "inconsistent_fs ''vector_db'' =
     Some \<lparr>index_faiss = Stored \<lparr>d = 2, xb = [[0, 0], [3, 4], [1, 0], [0, 1]]\<rparr>,
           metadata_pkl = Stored [''a'', ''b''], config_pkl = Stored 3\<rparr>"
    by (simp add: inconsistent_fs_def)
  have n: "ntotal \<lparr>d = 2, xb = [[0, 0], [3, 4], [1, 0], [0, 1]]\<rparr> \<noteq> length [''a'', ''b'']"
    by (simp add: ntotal_def)
  show ?thesis
    using h l f n
      operations_preserve_invariant_load_unchecked [OF h, of 2 "[[5, 5]]" "[''x'']"
        "''vector_db''" no_files "''vector_db''" inconsistent_fs inconsistent_store
        "\<lparr>d = 2, xb = [[0, 0], [3, 4], [1, 0], [0, 1]]\<rparr>" "[''a'', ''b'']" 3]
    by blast
qed

text \<open>
  C3, as the claim states it, does not hold: \<open>load\<close> checks neither the length of the
  metadata against the number of vectors nor the persisted dimension against the
  dimension of the index. A directory with four vectors of dimension 2, two metadata
  entries and the persisted dimension 3 loads without an error.
\<close>

theorem load_without_validation_counterexample:
  "load ''vector_db'' inconsistent_fs = Inr inconsistent_store \<and>
   length (metadata inconsistent_store) \<noteq> ntotal (index inconsistent_store) \<and>
   dimension inconsistent_store \<noteq> d (index inconsistent_store)"
  by (simp add: load_outcome inconsistent_fs_def inconsistent_store_def ntotal_def)

text \<open>
  C3, amended. \<open>load\<close> fails exactly when the directory or one of the three artifacts
  (config, index, metadata) is missing or unreadable; when all three can be read it
  succeeds and returns the store made of the persisted dimension, index and metadata,
  whatever their lengths and dimensions are.
\<close>

theorem load_fails_iff_artifact_unavailable:
  "(fs directory = Some dir \<longrightarrow>
      (isl (load directory fs) \<longleftrightarrow>
         (\<forall>c. config_pkl dir \<noteq> Stored c) \<or> (\<forall>ix. index_faiss dir \<noteq> Stored ix) \<or>
         (\<forall>md. metadata_pkl dir \<noteq> Stored md))) \<and>
   (fs directory = None \<longrightarrow> isl (load directory fs)) \<and>
   (fs directory = Some \<lparr>index_faiss = Stored ix, metadata_pkl = Stored md, config_pkl = Stored c\<rparr>
      \<longrightarrow> load directory fs = Inr \<lparr>dimension = c, index = ix, metadata = md\<rparr>)"
  by (auto simp: load_outcome split: artifact.splits)

theorem load_fails_iff_artifact_unavailable_witness:
  "incomplete_fs ''vector_db'' =
     Some \<lparr>index_faiss = Stored \<lparr>d = 2, xb = []\<rparr>, metadata_pkl = Stored [], config_pkl = Missing\<rparr> \<and>
   isl (load ''vector_db'' incomplete_fs) \<and>
   incomplete_fs ''elsewhere'' = None \<and> isl (load ''elsewhere'' incomplete_fs) \<and>
   inconsistent_fs ''vector_db'' =
     Some \<lparr>index_faiss = Stored \<lparr>d = 2, xb = [[0, 0], [3, 4], [1, 0], [0, 1]]\<rparr>,
           metadata_pkl = Stored [''a'', ''b''], config_pkl = Stored 3\<rparr> \<and>
   load ''vector_db'' inconsistent_fs =
     Inr \<lparr>dimension = 3, index = \<lparr>d = 2, xb = [[0, 0], [3, 4], [1, 0], [0, 1]]\<rparr>,
          metadata = [''a'', ''b'']\<rparr>"
proof -
  let ?dir = "\<lparr>index_faiss = Stored \<lparr>d = 2, xb = []\<rparr>, metadata_pkl = Stored ([] :: string list),
               config_pkl = Missing\<rparr>"
  have h1: "incomplete_fs ''vector_db'' = Some ?dir" by (simp add: incomplete_fs_def)
  have h2: "incomplete_fs ''elsewhere'' = None" by (simp add: incomplete_fs_def)
  have h3: "inconsistent_fs ''vector_db'' =
     Some \<lparr>index_faiss = Stored \<lparr>d = 2, xb = [[0, 0], [3, 4], [1, 0], [0, 1]]\<rparr>,
           metadata_pkl = Stored [''a'', ''b''], config_pkl = Stored 3\<rparr>"
    by (simp add: inconsistent_fs_def)
  show ?thesis
    using h1 h2 h3
      load_fails_iff_artifact_unavailable [of incomplete_fs "''vector_db''" ?dir]
      load_fails_iff_artifact_unavailable [of incomplete_fs "''elsewhere''"]
      load_fails_iff_artifact_unavailable [of inconsistent_fs "''vector_db''" _
          "\<lparr>d = 2, xb = [[0, 0], [3, 4], [1, 0], [0, 1]]\<rparr>" "[''a'', ''b'']" 3]
    by simp
qed

section \<open>Properties of the matcher\<close>

text \<open>
  C8, as the claim states it, does not hold: the first call of
  \<open>find_matching_function\<close> on a generator without a vector store does not populate the
  index from the catalog when an index file is already persisted in \<open>vector_db\<close>; it
  loads the persisted store, here one whose only entry is not in the catalog.
\<close>

theorem first_call_may_load_stale_index_counterexample:
  "vector_store example_generator = None \<and>
   snd (find_matching_function example_catalog (example_generator, stale_fs)
          ''open the calculator'' 1) =
     (example_generator\<lparr>vector_store := Some stale_store\<rparr>, stale_fs) \<and>
   metadata stale_store \<noteq> example_catalog"
proof -
  have none: "vector_store example_generator = None"
    by (simp add: example_generator_def EmbeddingGenerator_init_def)
  have present: "index_file_exists ''vector_db'' stale_fs"
    by (simp add: index_file_exists_def stale_fs_def save_def)
  have "load ''vector_db'' stale_fs = Inr stale_store"
    by (simp add: stale_fs_def load_save)
  then have "snd (initialize_vector_store example_catalog ''vector_db'' (example_generator, stale_fs)) =
      (example_generator\<lparr>vector_store := Some stale_store\<rparr>, stale_fs)"
    using present by (simp add: initialize_load)
  moreover have "metadata stale_store \<noteq> example_catalog"
    by (simp add: stale_store_def example_catalog_def)
  ultimately show ?thesis
    using none by (simp add: find_matching_function_world)
qed

text \<open>
  C8, amended. On a call of \<open>find_matching_function\<close> with no vector store yet: when no
  index file is persisted in \<open>vector_db\<close>, the store is populated once from the full
  catalog, the vector of each descriptor being the encoding of its synthesized text
  (name, description and comma-joined keywords), and is saved; when an index file is
  persisted, the persisted store is loaded instead and the catalog is not encoded. With
  a vector store present, \<open>find_matching_function\<close> changes neither the generator nor
  the file system. In every case a repeated call leaves the generator and the file
  system exactly as the first call left them: nothing is populated again and no entry
  is added twice.
\<close>

theorem matcher_population_idempotent:
  "(vector_store self = None \<and> \<not> index_file_exists ''vector_db'' fs \<and>
    function_metadata \<noteq> [] \<and>
    (\<forall>f \<in> set function_metadata. length (model self (describe f)) = n) \<longrightarrow>
      snd (find_matching_function function_metadata (self, fs) query k) =
        (let vs = \<lparr>dimension = n,
                   index = \<lparr>d = n, xb = map (\<lambda>f. model self (describe f)) function_metadata\<rparr>,
                   metadata = function_metadata\<rparr>
         in (self\<lparr>vector_store := Some vs\<rparr>, save vs ''vector_db'' fs))) \<and>
   (vector_store self = None \<and> index_file_exists ''vector_db'' fs \<and>
    load ''vector_db'' fs = Inr loaded \<longrightarrow>
      snd (find_matching_function function_metadata (self, fs) query k) =
        (self\<lparr>vector_store := Some loaded\<rparr>, fs)) \<and>
   (vector_store self \<noteq> None \<longrightarrow>
      snd (find_matching_function function_metadata (self, fs) query k) = (self, fs)) \<and>
   snd (find_matching_function function_metadata
          (snd (find_matching_function function_metadata (self, fs) query k)) query' k') =
     snd (find_matching_function function_metadata (self, fs) query k)"
proof (intro conjI impI)
  assume "vector_store self = None \<and> \<not> index_file_exists ''vector_db'' fs \<and>
    function_metadata \<noteq> [] \<and>
    (\<forall>f \<in> set function_metadata. length (model self (describe f)) = n)"
  then show "snd (find_matching_function function_metadata (self, fs) query k) =
        (let vs = \<lparr>dimension = n,
                   index = \<lparr>d = n, xb = map (\<lambda>f. model self (describe f)) function_metadata\<rparr>,
                   metadata = function_metadata\<rparr>
         in (self\<lparr>vector_store := Some vs\<rparr>, save vs ''vector_db'' fs))"
    by (simp add: find_matching_function_world initialize_fresh [of "''vector_db''" fs _ self n] Let_def)
next
  assume "vector_store self = None \<and> index_file_exists ''vector_db'' fs \<and>
    load ''vector_db'' fs = Inr loaded"
  then show "snd (find_matching_function function_metadata (self, fs) query k) =
        (self\<lparr>vector_store := Some loaded\<rparr>, fs)"
    by (simp add: find_matching_function_world initialize_load)
next
  assume "vector_store self \<noteq> None"
  then show "snd (find_matching_function function_metadata (self, fs) query k) = (self, fs)"
    by (auto simp: find_matching_function_world)
next
  show "snd (find_matching_function function_metadata
          (snd (find_matching_function function_metadata (self, fs) query k)) query' k') =
     snd (find_matching_function function_metadata (self, fs) query k)"
    by (rule find_matching_function_twice)
qed

theorem matcher_population_idempotent_witness:
  "vector_store example_generator = None \<and> \<not> index_file_exists ''vector_db'' (no_files :: func filesystem) \<and>
   example_catalog \<noteq> [] \<and>
   list_all (\<lambda>f. length (model example_generator (describe f)) = 2) example_catalog \<and>
   snd (find_matching_function example_catalog (example_generator, no_files) ''cpu load'' 1) =
     (let vs = \<lparr>dimension = 2,
                index = \<lparr>d = 2,
                         xb = map (\<lambda>f. model example_generator (describe f)) example_catalog\<rparr>,
                metadata = example_catalog\<rparr>
      in (example_generator\<lparr>vector_store := Some vs\<rparr>, save vs ''vector_db'' no_files)) \<and>
   index_file_exists ''vector_db'' stale_fs \<and> load ''vector_db'' stale_fs = Inr stale_store \<and>
   snd (find_matching_function example_catalog (example_generator, stale_fs) ''cpu load'' 1) =
     (example_generator\<lparr>vector_store := Some stale_store\<rparr>, stale_fs) \<and>
   vector_store (example_generator\<lparr>vector_store := Some stale_store\<rparr>) \<noteq> None \<and>
   snd (find_matching_function example_catalog
          (example_generator\<lparr>vector_store := Some stale_store\<rparr>, stale_fs) ''cpu load'' 1) =
     (example_generator\<lparr>vector_store := Some stale_store\<rparr>, stale_fs)"
proof -
  have none: "vector_store example_generator = None"
    by (simp add: example_generator_def EmbeddingGenerator_init_def)
  have nofile: "\<not> index_file_exists ''vector_db'' (no_files :: func filesystem)"
    by (simp add: index_file_exists_def no_files_def)
  have cat: "example_catalog \<noteq> []" by (simp add: example_catalog_def)
  have dims: "\<forall>f \<in> set example_catalog. length (model example_generator (describe f)) = 2"
    by (simp add: example_generator_def EmbeddingGenerator_init_def example_model_def)
  have present: "index_file_exists ''vector_db'' stale_fs"
    by (simp add: index_file_exists_def stale_fs_def save_def)
  have loaded: "load ''vector_db'' stale_fs = Inr stale_store"
    by (simp add: stale_fs_def load_save)
  have some: "vector_store (example_generator\<lparr>vector_store := Some stale_store\<rparr>) \<noteq> None"
    by simp
  have dims_all:
    "list_all (\<lambda>f. length (model example_generator (describe f)) = 2) example_catalog"
    using dims by (simp add: list_all_iff)
  show ?thesis
    using none nofile cat dims dims_all present loaded some
      matcher_population_idempotent [of example_generator no_files example_catalog 2
        "''cpu load''" 1]
      matcher_population_idempotent [of example_generator stale_fs example_catalog _
        "''cpu load''" 1 stale_store]
      matcher_population_idempotent [of "example_generator\<lparr>vector_store := Some stale_store\<rparr>"
        stale_fs example_catalog _ "''cpu load''" 1]
    by simp
qed

end
